theory Spec2Isabelle
  imports Complex_Main "HOL-Library.Product_Lexorder"
begin

section \<open>The S\&P500 daily forecast strategy (snp\_forecast.py)\<close>

text \<open>
  The class \<open>SPYDailyForecastStrategy\<close> owns a trained classifier, a bar counter and a
  long/flat flag. Its collaborators (the data handler \<open>bars\<close>, the lagged-series builder,
  the classifier and the event queue) live outside the file; they are taken as
  parameters. A collaborator object is a state together with its methods, each method a
  function from the state and the arguments to a result and the new state, so that a
  call that is made can be told from a call that is not.
\<close>

subsection \<open>Values\<close>

text \<open>
  A Python exception, by the name of its class. The file has no \<open>raise\<close> of its own:
  what it raises comes from indexing (\<open>IndexError\<close>), from a column lookup
  (\<open>KeyError\<close>) or from a collaborator, and is never caught.
\<close>

datatype py_exception = Exception string

abbreviation IndexError :: py_exception where
  "IndexError \<equiv> Exception ''IndexError''"

abbreviation KeyError :: py_exception where
  "KeyError \<equiv> Exception ''KeyError''"

text \<open>
  A naive \<open>datetime\<close>: year, month, day and the microsecond of the day, compared
  lexicographically as Python compares them.
\<close>

type_synonym datetime = "nat \<times> nat \<times> nat \<times> nat"

text \<open>\<open>xs[i]\<close> for a literal index \<open>i \<ge> 0\<close>: out of range raises \<open>IndexError\<close>.\<close>

definition getitem :: "'a list \<Rightarrow> nat \<Rightarrow> py_exception + 'a" where
  "getitem xs i = (if i < length xs then Inr (xs ! i) else Inl IndexError)"

text \<open>
  The event handed to \<open>calculate_signals\<close>: only its \<open>type\<close> attribute is read.
\<close>

record event =
  type :: string

text \<open>
  \<open>SignalEvent(1, sym, cur_date, 'LONG', 1.0)\<close>: the five positional arguments of the
  constructor, in order.
\<close>

record signal_event =
  strategy_id :: int
  symbol :: string
  datetime :: datetime
  signal_type :: string
  strength :: real

text \<open>
  A pandas \<open>DataFrame\<close>: the index (one date per row) and the columns by name, each
  column holding one cell per row.
\<close>

record 'f data_frame =
  index :: "datetime list"
  data :: "(string \<times> 'f list) list"

text \<open>\<open>df[[c1, ..., cn]]\<close>: the named columns in the order asked; a missing name raises \<open>KeyError\<close>.\<close>

fun select_columns :: "(string \<times> 'c) list \<Rightarrow> string list \<Rightarrow> py_exception + (string \<times> 'c) list" where
  "select_columns d [] = Inr []"
| "select_columns d (n # ns) =
     (case map_of d n of
        None \<Rightarrow> Inl KeyError
      | Some col \<Rightarrow>
          (case select_columns d ns of
             Inl e \<Rightarrow> Inl e
           | Inr cols \<Rightarrow> Inr ((n, col) # cols)))"

definition getitem_columns :: "'f data_frame \<Rightarrow> string list \<Rightarrow> py_exception + 'f data_frame" where
  "getitem_columns df names =
     (case select_columns (data df) names of
        Inl e \<Rightarrow> Inl e
      | Inr cols \<Rightarrow> Inr (df\<lparr>data := cols\<rparr>))"

text \<open>\<open>df[mask]\<close> for a boolean mask with one entry per row: the rows whose entry is true.\<close>

definition keep :: "bool list \<Rightarrow> 'a list \<Rightarrow> 'a list" where
  "keep bs xs = map snd (filter fst (zip bs xs))"

definition getitem_mask :: "'f data_frame \<Rightarrow> bool list \<Rightarrow> 'f data_frame" where
  "getitem_mask df bs =
     \<lparr>index = keep bs (index df),
      data = map (\<lambda>(n, col). (n, keep bs col)) (data df)\<rparr>"

subsection \<open>Collaborators\<close>

text \<open>
  \<open>'f\<close> is the type of a float (any type with a product and numerals, so that
  \<open>x * 100\<close> is the source's \<open>x * 100.0\<close>), \<open>'h\<close> the state of the data handler, \<open>'m\<close>
  the state of the classifier. \<open>predict\<close> takes the single row of the reshaped array and returns the
  single label; only the label's comparison with 0 is used. \<open>signal_event_init\<close> is the
  constructor \<open>SignalEvent(...)\<close> and \<open>events_put\<close> the method \<open>events.put(signal)\<close> of
  the queue in its present content: each gives the exception the call raises, or \<open>None\<close>
  when it returns, and a \<open>put\<close> that returns has appended the signal.
\<close>

record ('f, 'h, 'm) collaborators =
  bars_symbol_list :: "'h \<Rightarrow> string list"
  get_latest_bars_values :: "'h \<Rightarrow> string \<Rightarrow> string \<Rightarrow> nat \<Rightarrow> (py_exception + 'f list) \<times> 'h"
  create_lagged_series :: "string \<Rightarrow> datetime \<Rightarrow> datetime \<Rightarrow> nat \<Rightarrow> py_exception + 'f data_frame"
  fit :: "'f data_frame \<Rightarrow> 'f data_frame \<Rightarrow> py_exception + 'm"
  predict :: "'m \<Rightarrow> 'f list \<Rightarrow> (py_exception + real) \<times> 'm"
  signal_event_init :: "signal_event \<Rightarrow> py_exception option"
  events_put :: "signal_event list \<Rightarrow> signal_event \<Rightarrow> py_exception option"

subsection \<open>The strategy object\<close>

text \<open>
  The attributes \<open>__init__\<close> sets before it trains the model, and the object once
  \<open>self.model\<close> is set. \<open>events\<close> is the queue as this object writes it: \<open>put\<close> appends.
\<close>

record 'h strategy_attrs =
  bars :: 'h
  symbol_list :: "string list"
  events :: "signal_event list"
  datetime_now :: datetime
  model_start_date :: datetime
  model_end_date :: datetime
  model_start_test_date :: datetime
  long_market :: bool
  short_market :: bool
  bar_index :: int

record ('h, 'm) strategy = "'h strategy_attrs" +
  model :: 'm

subsection \<open>Model construction\<close>

text \<open>
  Lines 81 to 96 of \<open>create_symbol_forecast_model\<close>: the lagged series is asked for with
  \<open>lags=5\<close>, the predictors are the columns \<open>Lag1\<close> and \<open>Lag2\<close>, the response is
  \<open>Direction\<close>, and the rows are split at \<open>model_start_test_date\<close>. The result is
  \<open>(X_train, X_test, y_train, y_test)\<close>.
\<close>

definition training_sets ::
  "('f, 'h, 'm) collaborators \<Rightarrow> ('h, 'z) strategy_attrs_scheme \<Rightarrow>
   py_exception + ('f data_frame \<times> 'f data_frame \<times> 'f data_frame \<times> 'f data_frame)" where
  "training_sets c self =
     (case getitem (symbol_list self) 0 of
        Inl e \<Rightarrow> Inl e
      | Inr symb \<Rightarrow>
     (case create_lagged_series c symb (model_start_date self) (model_end_date self) 5 of
        Inl e \<Rightarrow> Inl e
      | Inr snpret \<Rightarrow>
     (case getitem_columns snpret [''Lag1'', ''Lag2''] of
        Inl e \<Rightarrow> Inl e
      | Inr X \<Rightarrow>
     (case getitem_columns snpret [''Direction''] of
        Inl e \<Rightarrow> Inl e
      | Inr y \<Rightarrow>
          (let start_test = model_start_test_date self;
               X_train = getitem_mask X (map (\<lambda>d. d < start_test) (index X));
               X_test = getitem_mask X (map (\<lambda>d. d \<ge> start_test) (index X));
               y_train = getitem_mask y (map (\<lambda>d. d < start_test) (index y));
               y_test = getitem_mask y (map (\<lambda>d. d \<ge> start_test) (index y))
           in Inr (X_train, X_test, y_train, y_test))))))"

text \<open>Lines 101 to 103: the classifier is fitted on the training sets and returned.\<close>

definition create_symbol_forecast_model ::
  "('f, 'h, 'm) collaborators \<Rightarrow> ('h, 'z) strategy_attrs_scheme \<Rightarrow> py_exception + 'm" where
  "create_symbol_forecast_model c self =
     (case training_sets c self of
        Inl e \<Rightarrow> Inl e
      | Inr (X_train, X_test, y_train, y_test) \<Rightarrow> fit c X_train y_train)"

text \<open>
  \<open>__init__(self, bars, events)\<close>, with the reading of the clock (\<open>utcnow()\<close>) as a third
  argument. An exception of \<open>create_symbol_forecast_model\<close> leaves \<open>__init__\<close>, and
  the caller gets no object.
\<close>

definition SPYDailyForecastStrategy_init ::
  "('f, 'h, 'm) collaborators \<Rightarrow> 'h \<Rightarrow> signal_event list \<Rightarrow> datetime \<Rightarrow>
   py_exception + ('h, 'm) strategy" where
  "SPYDailyForecastStrategy_init c bars0 events0 utcnow =
     (let self = \<lparr>bars = bars0,
                  symbol_list = bars_symbol_list c bars0,
                  events = events0,
                  datetime_now = utcnow,
                  model_start_date = (2016, 1, 10, 0),
                  model_end_date = (2017, 12, 31, 0),
                  model_start_test_date = (2017, 1, 1, 0),
                  long_market = False,
                  short_market = False,
                  bar_index = 0\<rparr>
      in case create_symbol_forecast_model c self of
           Inl e \<Rightarrow> Inl e
         | Inr m \<Rightarrow>
             Inr \<lparr>bars = bars self,
                  symbol_list = symbol_list self,
                  events = events self,
                  datetime_now = datetime_now self,
                  model_start_date = model_start_date self,
                  model_end_date = model_end_date self,
                  model_start_test_date = model_start_test_date self,
                  long_market = long_market self,
                  short_market = short_market self,
                  bar_index = bar_index self,
                  model = m\<rparr>)"

subsection \<open>Signal generation\<close>

text \<open>
  Lines 149 to 150 and 154 to 155: \<open>signal = SignalEvent(...)\<close>, then
  \<open>self.events.put(signal)\<close>. Either call may raise, and then nothing is put.
\<close>

definition put_signal ::
  "('f, 'h, 'm) collaborators \<Rightarrow> ('h, 'm) strategy \<Rightarrow> signal_event \<Rightarrow>
   py_exception option \<times> ('h, 'm) strategy" where
  "put_signal c self signal =
     (case signal_event_init c signal of
        Some e \<Rightarrow> (Some e, self)
      | None \<Rightarrow>
          (case events_put c (events self) signal of
             Some e \<Rightarrow> (Some e, self)
           | None \<Rightarrow> (None, self\<lparr>events := events self @ [signal]\<rparr>)))"

text \<open>
  Lines 147 to 155: the two \<open>if\<close> statements on the prediction, one after the other.
  In each the flag \<open>long_market\<close> is assigned first and the signal is made and put
  after, so an exception of the constructor or of \<open>put\<close> leaves the flag assigned. The
  source's local \<open>sym\<close> is \<open>symb\<close> here.
\<close>

definition emit_signals ::
  "('f, 'h, 'm) collaborators \<Rightarrow> ('h, 'm) strategy \<Rightarrow> string \<Rightarrow> datetime \<Rightarrow> real \<Rightarrow>
   py_exception option \<times> ('h, 'm) strategy" where
  "emit_signals c self symb cur_date pred =
     (case (if pred > 0 \<and> \<not> long_market self
            then put_signal c (self\<lparr>long_market := True\<rparr>)
                   \<lparr>strategy_id = 1, symbol = symb, datetime = cur_date,
                    signal_type = ''LONG'', strength = 1\<rparr>
            else (None, self)) of
        (Some e, s1) \<Rightarrow> (Some e, s1)
      | (None, s1) \<Rightarrow>
          (if pred < 0 \<and> long_market s1
           then put_signal c (s1\<lparr>long_market := False\<rparr>)
                  \<lparr>strategy_id = 1, symbol = symb, datetime = cur_date,
                   signal_type = ''EXIT'', strength = 1\<rparr>
           else (None, s1)))"

text \<open>
  Lines 136 to 146, then the signals: the three latest returns are asked of the data
  handler, \<open>lags[1] * 100.0\<close> and \<open>lags[2] * 100.0\<close> are handed to the classifier, the
  product being that of the type of the returns. The result is the exception raised, if
  any, and the object as the call leaves it.
\<close>

definition predict_and_signal ::
  "('f::{times,numeral}, 'h, 'm) collaborators \<Rightarrow> ('h, 'm) strategy \<Rightarrow> string \<Rightarrow> datetime \<Rightarrow>
   py_exception option \<times> ('h, 'm) strategy" where
  "predict_and_signal c self symb cur_date =
     (case getitem (symbol_list self) 0 of
        Inl e \<Rightarrow> (Some e, self)
      | Inr sym0 \<Rightarrow>
     (case get_latest_bars_values c (bars self) sym0 ''returns'' 3 of
        (Inl e, h) \<Rightarrow> (Some e, self\<lparr>bars := h\<rparr>)
      | (Inr lags, h) \<Rightarrow>
     (case getitem lags 1 of
        Inl e \<Rightarrow> (Some e, self\<lparr>bars := h\<rparr>)
      | Inr lag1 \<Rightarrow>
     (case getitem lags 2 of
        Inl e \<Rightarrow> (Some e, self\<lparr>bars := h\<rparr>)
      | Inr lag2 \<Rightarrow>
     (case predict c (model self) [lag1 * 100, lag2 * 100] of
        (Inl e, m) \<Rightarrow> (Some e, self\<lparr>bars := h, model := m\<rparr>)
      | (Inr pred, m) \<Rightarrow>
          emit_signals c (self\<lparr>bars := h, model := m\<rparr>) symb cur_date pred)))))"

text \<open>\<open>calculate_signals(self, event)\<close>, lines 130 to 155.\<close>

definition calculate_signals ::
  "('f::{times,numeral}, 'h, 'm) collaborators \<Rightarrow> ('h, 'm) strategy \<Rightarrow> event \<Rightarrow>
   py_exception option \<times> ('h, 'm) strategy" where
  "calculate_signals c self ev =
     (case getitem (symbol_list self) 0 of
        Inl e \<Rightarrow> (Some e, self)
      | Inr symb \<Rightarrow>
          (let cur_date = datetime_now self in
           if type ev = ''MARKET'' then
             (let self1 = self\<lparr>bar_index := bar_index self + 1\<rparr> in
              if bar_index self1 > 5 then predict_and_signal c self1 symb cur_date
              else (None, self1))
           else (None, self)))"

subsection \<open>A run\<close>

text \<open>
  Modelled from the spec: the backtest driver, which is not in the file. It delivers the
  events in order, one call of \<open>calculate_signals\<close> each; before a call the driver may
  have changed the data handler (a new bar), which is the function paired with the
  event. An exception ends the run.
\<close>

fun run ::
  "('f::{times,numeral}, 'h, 'm) collaborators \<Rightarrow> ('h, 'm) strategy \<Rightarrow> (('h \<Rightarrow> 'h) \<times> event) list \<Rightarrow>
   py_exception option \<times> ('h, 'm) strategy" where
  "run c self [] = (None, self)"
| "run c self ((upd, ev) # rest) =
     (case calculate_signals c (self\<lparr>bars := upd (bars self)\<rparr>) ev of
        (Some e, self') \<Rightarrow> (Some e, self')
      | (None, self') \<Rightarrow> run c self' rest)"

text \<open>The signals a call or a run has put on the queue: what the queue holds beyond its old content.\<close>

definition emitted :: "('h, 'm) strategy \<Rightarrow> ('h, 'm) strategy \<Rightarrow> signal_event list" where
  "emitted before after = drop (length (events before)) (events after)"

subsection \<open>Stand-ins for the collaborators\<close>

text \<open>
  Concrete collaborators for the examples. The data handler holds the returns it would
  answer with and a log of the queries made of it. The classifier keeps what it was
  fitted on and every row it was asked about; it predicts the sign of its first
  feature, and its \<open>fit\<close> raises \<open>ValueError\<close> on an empty training set and on
  labels of a single class, as scikit-learn's does. The builder answers with the
  columns \<open>Today\<close>, the first \<open>lags\<close> lag columns and \<open>Direction\<close> of a given frame.
  The constructor of the signal and the queue's \<open>put\<close> never raise.
\<close>

abbreviation ValueError :: py_exception where
  "ValueError \<equiv> Exception ''ValueError''"

type_synonym handler_state = "real list \<times> (string \<times> string \<times> nat) list"

record classifier_state =
  trained_on :: "real data_frame \<times> real data_frame"
  seen :: "real list list"

definition stub_get_latest ::
  "handler_state \<Rightarrow> string \<Rightarrow> string \<Rightarrow> nat \<Rightarrow> (py_exception + real list) \<times> handler_state" where
  "stub_get_latest h symb val_type N =
     (Inr (take N (fst h)), (fst h, snd h @ [(symb, val_type, N)]))"

definition stub_predict ::
  "classifier_state \<Rightarrow> real list \<Rightarrow> (py_exception + real) \<times> classifier_state" where
  "stub_predict m row =
     (case row of
        [] \<Rightarrow> (Inl ValueError, m\<lparr>seen := seen m @ [row]\<rparr>)
      | x # _ \<Rightarrow> (Inr (sgn x), m\<lparr>seen := seen m @ [row]\<rparr>))"

definition stub_fit ::
  "real data_frame \<Rightarrow> real data_frame \<Rightarrow> py_exception + classifier_state" where
  "stub_fit X y =
     (if index X = [] then Inl ValueError
      else if length (remdups (concat (map snd (data y)))) < 2 then Inl ValueError
      else Inr \<lparr>trained_on = (X, y), seen = []\<rparr>)"

definition lag_names :: "string list" where
  "lag_names = [''Lag1'', ''Lag2'', ''Lag3'', ''Lag4'', ''Lag5'', ''Lag6'']"

definition stub_lagged_series ::
  "real data_frame \<Rightarrow> string \<Rightarrow> datetime \<Rightarrow> datetime \<Rightarrow> nat \<Rightarrow> py_exception + real data_frame" where
  "stub_lagged_series src symb start_date end_date lags =
     Inr (src\<lparr>data :=
       filter (\<lambda>(n, col). n \<in> set ([''Today''] @ take lags lag_names @ [''Direction'']))
         (data src)\<rparr>)"

definition stub :: "real data_frame \<Rightarrow> (real, handler_state, classifier_state) collaborators" where
  "stub src =
     \<lparr>bars_symbol_list = (\<lambda>h. [''SPY'']),
      get_latest_bars_values = stub_get_latest,
      create_lagged_series = stub_lagged_series src,
      fit = stub_fit,
      predict = stub_predict,
      signal_event_init = (\<lambda>signal. None),
      events_put = (\<lambda>queue signal. None)\<rparr>"


text \<open>
  Four rows around the cutoff 2017-01-01 with six lag columns; the same frame with the
  rows of 2017 only; and the same frame with no lag column but \<open>Lag1\<close>.
\<close>

definition frame_full :: "real data_frame" where
  "frame_full =
     \<lparr>index = [(2016, 6, 1, 0), (2016, 12, 30, 0), (2017, 1, 1, 0), (2017, 3, 1, 0)],
      data = [(''Today'', [1, 2, 3, 4]),
              (''Lag1'', [11, 12, 13, 14]), (''Lag2'', [21, 22, 23, 24]),
              (''Lag3'', [31, 32, 33, 34]), (''Lag4'', [41, 42, 43, 44]),
              (''Lag5'', [51, 52, 53, 54]), (''Lag6'', [61, 62, 63, 64]),
              (''Direction'', [1, - 1, 1, - 1])]\<rparr>"

definition frame_late :: "real data_frame" where
  "frame_late =
     \<lparr>index = [(2017, 1, 1, 0), (2017, 3, 1, 0)],
      data = [(''Today'', [3, 4]),
              (''Lag1'', [13, 14]), (''Lag2'', [23, 24]),
              (''Lag3'', [33, 34]), (''Lag4'', [43, 44]),
              (''Lag5'', [53, 54]), (''Lag6'', [63, 64]),
              (''Direction'', [1, - 1])]\<rparr>"

definition frame_one_lag :: "real data_frame" where
  "frame_one_lag =
     \<lparr>index = [(2016, 6, 1, 0), (2016, 12, 30, 0), (2017, 1, 1, 0), (2017, 3, 1, 0)],
      data = [(''Today'', [1, 2, 3, 4]),
              (''Lag1'', [11, 12, 13, 14]),
              (''Direction'', [1, - 1, 1, - 1])]\<rparr>"

text \<open>
  The classifier \<open>stub_fit\<close> returns on the training sets of \<open>frame_full\<close>; the strategy
  \<open>__init__\<close> returns with these stand-ins, a data handler holding the given returns and
  the clock at 2020-05-06; and the same strategy with five bars counted and the flag set
  by hand.
\<close>

definition trained :: classifier_state where
  "trained =
     \<lparr>trained_on =
        (\<lparr>index = [(2016, 6, 1, 0), (2016, 12, 30, 0)],
          data = [(''Lag1'', [11, 12]), (''Lag2'', [21, 22])]\<rparr>,
         \<lparr>index = [(2016, 6, 1, 0), (2016, 12, 30, 0)],
          data = [(''Direction'', [1, - 1])]\<rparr>),
      seen = []\<rparr>"

definition fresh :: "real list \<Rightarrow> (handler_state, classifier_state) strategy" where
  "fresh returns =
     \<lparr>bars = (returns, []),
      symbol_list = [''SPY''],
      events = [],
      datetime_now = (2020, 5, 6, 0),
      model_start_date = (2016, 1, 10, 0),
      model_end_date = (2017, 12, 31, 0),
      model_start_test_date = (2017, 1, 1, 0),
      long_market = False,
      short_market = False,
      bar_index = 0,
      model = trained\<rparr>"

definition after_warmup :: "real list \<Rightarrow> bool \<Rightarrow> (handler_state, classifier_state) strategy" where
  "after_warmup returns lm = (fresh returns)\<lparr>bar_index := 5, long_market := lm\<rparr>"

text \<open>The driver between two events: a new bar, after which the data handler answers with the given returns.\<close>

definition bar :: "real list \<Rightarrow> handler_state \<Rightarrow> handler_state" where
  "bar returns h = (returns, snd h)"

definition market :: event where
  "market = \<lparr>type = ''MARKET''\<rparr>"

text \<open>What the builder answers from \<open>frame_full\<close> when asked for five lags.\<close>

definition series5 :: "real data_frame" where
  "series5 =
     \<lparr>index = [(2016, 6, 1, 0), (2016, 12, 30, 0), (2017, 1, 1, 0), (2017, 3, 1, 0)],
      data = [(''Today'', [1, 2, 3, 4]),
              (''Lag1'', [11, 12, 13, 14]), (''Lag2'', [21, 22, 23, 24]),
              (''Lag3'', [31, 32, 33, 34]), (''Lag4'', [41, 42, 43, 44]),
              (''Lag5'', [51, 52, 53, 54]),
              (''Direction'', [1, - 1, 1, - 1])]\<rparr>"

text \<open>
  Two stretches of a run: five market events and one other event, during which the
  driver fills the data handler; then five market events whose \<open>lags[1]\<close> is positive,
  positive, negative, negative and positive.
\<close>

definition warmup_bars :: "((handler_state \<Rightarrow> handler_state) \<times> event) list" where
  "warmup_bars =
     [(bar [1 / 100], market), (bar [2 / 100, 1 / 100], market),
      (id, \<lparr>type = ''SIGNAL''\<rparr>),
      (bar [3 / 100, 2 / 100, 1 / 100], market), (bar [1 / 100, 3 / 100, 2 / 100], market),
      (bar [2 / 100, 1 / 100, 3 / 100], market)]"

definition later_bars :: "((handler_state \<Rightarrow> handler_state) \<times> event) list" where
  "later_bars =
     [(bar [0, 2 / 100, 1 / 100], market), (bar [0, 3 / 100, 2 / 100], market),
      (bar [0, - 1 / 100, 3 / 100], market), (bar [0, - 2 / 100, - 1 / 100], market),
      (bar [0, 1 / 100, - 2 / 100], market)]"

subsection \<open>Notions the properties use\<close>

text \<open>
  A sequence of signal types that alternates, beginning with \<open>EXIT\<close> when the flag is
  set and with \<open>LONG\<close> when it is not; and the number of market events in a run.
\<close>

text \<open>
  The collaborators of the normal path: \<open>SignalEvent(...)\<close> and \<open>events.put(...)\<close> raise
  on no signal and no queue, as the event class and an unbounded queue do.
\<close>

definition queue_accepts :: "('f, 'h, 'm) collaborators \<Rightarrow> bool" where
  "queue_accepts c \<longleftrightarrow>
     (\<forall>signal. signal_event_init c signal = None) \<and>
     (\<forall>queue signal. events_put c queue signal = None)"

fun alternating :: "bool \<Rightarrow> string list \<Rightarrow> bool" where
  "alternating lm [] = True"
| "alternating lm (t # ts) = (t = (if lm then ''EXIT'' else ''LONG'') \<and> alternating (\<not> lm) ts)"

text \<open>The cells of a column in the rows whose date satisfies \<open>P\<close>.\<close>

definition rows_where :: "(datetime \<Rightarrow> bool) \<Rightarrow> datetime list \<Rightarrow> 'a list \<Rightarrow> 'a list" where
  "rows_where P idx col = map snd (filter (\<lambda>(d, v). P d) (zip idx col))"

definition market_count :: "(('h \<Rightarrow> 'h) \<times> event) list \<Rightarrow> nat" where
  "market_count evs = length (filter (\<lambda>(upd, ev). type ev = ''MARKET'') evs)"

section \<open>Properties\<close>

subsection \<open>One call of \<open>calculate_signals\<close>\<close>

text \<open>
  When the constructor and \<open>put\<close> do not raise, the two \<open>if\<close> statements are one
  update of the flag and of the queue.
\<close>

lemma put_signal_accepts:
  "queue_accepts c \<Longrightarrow> put_signal c self signal = (None, self\<lparr>events := events self @ [signal]\<rparr>)"
  by (simp add: put_signal_def queue_accepts_def)

lemma emit_signals_eq:
  "queue_accepts c \<Longrightarrow>
   emit_signals c self symb d p =
     (None,
      self\<lparr>long_market := (if long_market self then \<not> p < 0 else p > 0),
           events := events self @
             (if \<not> long_market self \<and> p > 0
              then [\<lparr>strategy_id = 1, symbol = symb, datetime = d, signal_type = ''LONG'', strength = 1\<rparr>]
              else if long_market self \<and> p < 0
              then [\<lparr>strategy_id = 1, symbol = symb, datetime = d, signal_type = ''EXIT'', strength = 1\<rparr>]
              else [])\<rparr>)"
  by (simp add: emit_signals_def put_signal_accepts)

text \<open>
  In general a signal is put, or the constructor or \<open>put\<close> raises and nothing is put.
  The two \<open>if\<close> statements put at most one signal, the one that fits the flag; when
  they raise they have put none.
\<close>

lemma put_signal_frame:
  assumes "put_signal c self signal = (r, self')"
  shows "(r = None \<longrightarrow> self' = self\<lparr>events := events self @ [signal]\<rparr>) \<and>
         (r \<noteq> None \<longrightarrow> self' = self \<and>
            (signal_event_init c signal = r \<or> events_put c (events self) signal = r))"
  using assms by (auto simp: put_signal_def split: option.splits)

lemma emit_signals_frame:
  assumes "emit_signals c self symb d p = (r, self')"
  shows "bars self' = bars self \<and> model self' = model self \<and> bar_index self' = bar_index self \<and>
         datetime_now self' = datetime_now self \<and> symbol_list self' = symbol_list self \<and>
         (\<exists>new. events self' = events self @ new \<and>
            (new = [] \<or>
             new = [\<lparr>strategy_id = 1, symbol = symb, datetime = d,
                     signal_type = (if long_market self then ''EXIT'' else ''LONG''),
                     strength = 1\<rparr>]) \<and>
            (r \<noteq> None \<longrightarrow> new = []) \<and>
            (r = None \<longrightarrow> long_market self' = (long_market self \<noteq> (new \<noteq> []))))"
proof (cases "p > 0 \<and> \<not> long_market self")
  case True
  then have "emit_signals c self symb d p =
      put_signal c (self\<lparr>long_market := True\<rparr>)
        \<lparr>strategy_id = 1, symbol = symb, datetime = d, signal_type = ''LONG'', strength = 1\<rparr>"
    by (auto simp: emit_signals_def put_signal_def split: option.splits)
  with assms have ps: "put_signal c (self\<lparr>long_market := True\<rparr>)
        \<lparr>strategy_id = 1, symbol = symb, datetime = d, signal_type = ''LONG'', strength = 1\<rparr> = (r, self')"
    by simp
  from put_signal_frame [OF ps] True show ?thesis by (cases r) auto
next
  case False
  show ?thesis
  proof (cases "p < 0 \<and> long_market self")
    case True
    with False have "emit_signals c self symb d p =
        put_signal c (self\<lparr>long_market := False\<rparr>)
          \<lparr>strategy_id = 1, symbol = symb, datetime = d, signal_type = ''EXIT'', strength = 1\<rparr>"
      by (auto simp: emit_signals_def)
    with assms have ps: "put_signal c (self\<lparr>long_market := False\<rparr>)
        \<lparr>strategy_id = 1, symbol = symb, datetime = d, signal_type = ''EXIT'', strength = 1\<rparr> = (r, self')"
    by simp
  from put_signal_frame [OF ps] True show ?thesis by (cases r) auto
  next
    case F2: False
    with False have "emit_signals c self symb d p = (None, self)"
      by (auto simp: emit_signals_def)
    with assms show ?thesis by auto
  qed
qed


text \<open>
  When the two \<open>if\<close> statements return, or cannot raise, they have made that one
  update.
\<close>

lemma emit_signals_returned:
  assumes "emit_signals c self symb d p = (None, self')"
  shows "self' =
      self\<lparr>long_market := (if long_market self then \<not> p < 0 else p > 0),
           events := events self @
             (if \<not> long_market self \<and> p > 0
              then [\<lparr>strategy_id = 1, symbol = symb, datetime = d, signal_type = ''LONG'', strength = 1\<rparr>]
              else if long_market self \<and> p < 0
              then [\<lparr>strategy_id = 1, symbol = symb, datetime = d, signal_type = ''EXIT'', strength = 1\<rparr>]
              else [])\<rparr>"
  using assms
  by (auto simp: emit_signals_def put_signal_def split: if_splits option.splits prod.splits)

lemma emit_signals_normal:
  assumes "emit_signals c self symb d p = (r, self')" and "r = None \<or> queue_accepts c"
  shows "r = None \<and> self' =
      self\<lparr>long_market := (if long_market self then \<not> p < 0 else p > 0),
           events := events self @
             (if \<not> long_market self \<and> p > 0
              then [\<lparr>strategy_id = 1, symbol = symb, datetime = d, signal_type = ''LONG'', strength = 1\<rparr>]
              else if long_market self \<and> p < 0
              then [\<lparr>strategy_id = 1, symbol = symb, datetime = d, signal_type = ''EXIT'', strength = 1\<rparr>]
              else [])\<rparr>"
proof -
  from assms have r: "r = None" by (auto simp: emit_signals_eq)
  with assms(1) emit_signals_returned [of c self symb d p self'] show ?thesis by simp
qed

text \<open>An event that is not a market event changes nothing.\<close>

lemma calculate_signals_other:
  "type ev \<noteq> ''MARKET'' \<Longrightarrow> snd (calculate_signals c self ev) = self"
  by (simp add: calculate_signals_def getitem_def Let_def split: sum.splits)

text \<open>Once five bars have been seen, a market event reaches the prediction.\<close>

lemma calculate_signals_open:
  assumes "type ev = ''MARKET''" and "5 \<le> bar_index self" and "symbol_list self = symb # syms"
  shows "calculate_signals c self ev =
           predict_and_signal c (self\<lparr>bar_index := bar_index self + 1\<rparr>) symb (datetime_now self)"
  using assms by (simp add: calculate_signals_def getitem_def Let_def)

text \<open>With three or more returns from the data handler, the classifier is asked about \<open>lags[1]\<close> and \<open>lags[2]\<close>.\<close>

lemma predict_and_signal_ok:
  assumes "symbol_list self = symb # syms"
    and "get_latest_bars_values c (bars self) symb ''returns'' 3 = (Inr (l0 # l1 # l2 # ls), h)"
    and "predict c (model self) [l1 * 100, l2 * 100] = (r, m)"
  shows "predict_and_signal c self sy d =
           (case r of
              Inl e \<Rightarrow> (Some e, self\<lparr>bars := h, model := m\<rparr>)
            | Inr p \<Rightarrow> emit_signals c (self\<lparr>bars := h, model := m\<rparr>) sy d p)"
  using assms by (simp add: predict_and_signal_def getitem_def split: sum.splits)


text \<open>Two labels of the same sign pass the same tests.\<close>

lemma sgn_eq_pos: "sgn (p::real) = sgn q \<Longrightarrow> (0 < p) = (0 < q) \<and> (p < 0) = (q < 0)"
  by (simp add: sgn_if split: if_splits)

text \<open>
  A call either ends before a signal is made (nothing is put and the flag is as it
  was; this is every path that raises in the symbol lookup, the data handler, the
  indexing or the classifier, and every path below the gate), or it ends in the two
  \<open>if\<close> statements.
\<close>

lemma predict_and_signal_cases:
  assumes "predict_and_signal c self sy d = (r, self')"
  shows "(r \<noteq> None \<and> events self' = events self \<and> long_market self' = long_market self \<and>
          bar_index self' = bar_index self \<and> datetime_now self' = datetime_now self \<and>
          symbol_list self' = symbol_list self) \<or>
         (\<exists>h m p. emit_signals c (self\<lparr>bars := h, model := m\<rparr>) sy d p = (r, self'))"
  using assms
  by (auto simp: predict_and_signal_def split: sum.splits prod.splits)

lemma calculate_signals_cases:
  assumes "calculate_signals c self ev = (r, self')"
  shows "(events self' = events self \<and> long_market self' = long_market self \<and>
          datetime_now self' = datetime_now self \<and> symbol_list self' = symbol_list self) \<or>
         (\<exists>h m p. emit_signals c (self\<lparr>bar_index := bar_index self + 1, bars := h, model := m\<rparr>)
                     (hd (symbol_list self)) (datetime_now self) p = (r, self'))"
proof (cases "type ev = ''MARKET'' \<and> 5 \<le> bar_index self \<and> symbol_list self \<noteq> []")
  case True
  then obtain symb syms where sl: "symbol_list self = symb # syms" by (cases "symbol_list self") auto
  with True assms have "predict_and_signal c (self\<lparr>bar_index := bar_index self + 1\<rparr>) symb
      (datetime_now self) = (r, self')"
    by (simp add: calculate_signals_open)
  from predict_and_signal_cases [OF this] sl show ?thesis by auto
next
  case False
  with assms show ?thesis
    by (auto simp: calculate_signals_def Let_def getitem_def split: sum.splits if_splits)
qed



text \<open>
  What one call does to the queue, the flag and the timestamp: it puts nothing, or the
  one signal that fits the flag, stamped with \<open>datetime_now\<close>; when it returns, and
  also when it raises with a constructor and a \<open>put\<close> that never do, the flag has
  flipped exactly when a signal was put.
\<close>

lemma emit_signals_returns: "queue_accepts c \<Longrightarrow> fst (emit_signals c self symb d p) = None"
  by (simp add: emit_signals_eq)

lemma calculate_signals_frame:
  assumes "calculate_signals c self ev = (r, self')"
  shows "datetime_now self' = datetime_now self \<and> symbol_list self' = symbol_list self \<and>
         (\<exists>new. events self' = events self @ new \<and>
            (new = [] \<or>
             new = [\<lparr>strategy_id = 1, symbol = hd (symbol_list self), datetime = datetime_now self,
                     signal_type = (if long_market self then ''EXIT'' else ''LONG''),
                     strength = 1\<rparr>]) \<and>
            (r \<noteq> None \<longrightarrow> new = []) \<and>
            (r = None \<or> queue_accepts c \<longrightarrow> long_market self' = (long_market self \<noteq> (new \<noteq> []))))"
  using calculate_signals_cases [OF assms]
proof
  assume "events self' = events self \<and> long_market self' = long_market self \<and>
          datetime_now self' = datetime_now self \<and> symbol_list self' = symbol_list self"
  then show ?thesis by simp
next
  assume "\<exists>h m p. emit_signals c (self\<lparr>bar_index := bar_index self + 1, bars := h, model := m\<rparr>)
                     (hd (symbol_list self)) (datetime_now self) p = (r, self')"
  then obtain h m p where em: "emit_signals c (self\<lparr>bar_index := bar_index self + 1, bars := h, model := m\<rparr>)
                     (hd (symbol_list self)) (datetime_now self) p = (r, self')"
    by blast
  have "r = None" if "queue_accepts c"
    using emit_signals_returns [OF that, of "self\<lparr>bar_index := bar_index self + 1, bars := h, model := m\<rparr>"
        "hd (symbol_list self)" "datetime_now self" p] em by simp
  with emit_signals_frame [OF em] show ?thesis by auto
qed

text \<open>Before the sixth bar, and on other events, a call touches the bar counter only.\<close>

lemma calculate_signals_closed:
  assumes "calculate_signals c self ev = (r, self')" and "bar_index self + 1 \<le> 5 \<or> type ev \<noteq> ''MARKET''"
  shows "events self' = events self \<and> long_market self' = long_market self \<and>
         model self' = model self \<and> bars self' = bars self \<and>
         bar_index self' \<le> bar_index self + (if type ev = ''MARKET'' then 1 else 0) \<and>
         (r = None \<longrightarrow> bar_index self' = bar_index self + (if type ev = ''MARKET'' then 1 else 0))"
  using assms
  by (auto simp: calculate_signals_def Let_def getitem_def split: sum.splits if_splits)

lemma run_closed:
  "bar_index self + int (market_count evs) \<le> 5 \<Longrightarrow> run c self evs = (r, self') \<Longrightarrow>
     events self' = events self \<and> long_market self' = long_market self \<and> model self' = model self \<and>
     (r = None \<longrightarrow> bar_index self' = bar_index self + int (market_count evs))"
proof (induction evs arbitrary: self)
  case Nil
  then show ?case by (auto simp: market_count_def)
next
  case (Cons x evs)
  obtain upd ev where x: "x = (upd, ev)" by (cases x)
  let ?s = "self\<lparr>bars := upd (bars self)\<rparr>"
  obtain r1 s1 where step: "calculate_signals c ?s ev = (r1, s1)" by (cases "calculate_signals c ?s ev")
  from Cons.prems(1) x have gate: "bar_index ?s + 1 \<le> 5 \<or> type ev \<noteq> ''MARKET''"
    by (auto simp: market_count_def)
  note cl = calculate_signals_closed [OF step gate]
  show ?case
  proof (cases r1)
    case None
    with Cons.prems(2) x step have rest: "run c s1 evs = (r, self')" by simp
    from cl Cons.prems(1) x have "bar_index s1 + int (market_count evs) \<le> 5"
      by (auto simp: market_count_def split: if_splits)
    from Cons.IH [OF this rest] cl None x show ?thesis
      by (auto simp: market_count_def)
  next
    case (Some e)
    with Cons.prems(2) x step have "self' = s1" and "r = Some e" by simp_all
    with cl show ?thesis by simp
  qed
qed

text \<open>Alternating sequences, and the signals of a run.\<close>

lemma alternating_append:
  "alternating lm (ts @ us) = (alternating lm ts \<and> alternating (lm \<noteq> odd (length ts)) us)"
  by (induction ts arbitrary: lm) auto

lemma alternating_adjacent:
  "alternating lm ts \<Longrightarrow> Suc i < length ts \<Longrightarrow> ts ! i \<noteq> ts ! Suc i"
proof (induction ts arbitrary: lm i)
  case Nil
  then show ?case by simp
next
  case (Cons t ts)
  show ?case
  proof (cases i)
    case 0
    with Cons.prems show ?thesis by (cases ts) (auto split: if_splits)
  next
    case (Suc j)
    with Cons.prems Cons.IH [of "\<not> lm" j] show ?thesis by simp
  qed
qed


lemma run_emits:
  "run c self evs = (r, self') \<Longrightarrow>
     datetime_now self' = datetime_now self \<and>
     (\<exists>new. events self' = events self @ new \<and>
        alternating (long_market self) (map signal_type new) \<and>
        (r = None \<or> queue_accepts c \<longrightarrow>
           long_market self' = (long_market self \<noteq> odd (length new))) \<and>
        (\<forall>e \<in> set new. datetime e = datetime_now self))"
proof (induction evs arbitrary: self)
  case Nil
  then show ?case by simp
next
  case (Cons x evs)
  obtain upd ev where x: "x = (upd, ev)" by (cases x)
  let ?s = "self\<lparr>bars := upd (bars self)\<rparr>"
  obtain r1 s1 where step: "calculate_signals c ?s ev = (r1, s1)" by (cases "calculate_signals c ?s ev")
  from calculate_signals_frame [OF step]
  obtain new1 where d1: "datetime_now s1 = datetime_now self"
    and e1: "events s1 = events self @ new1"
    and sh: "new1 = [] \<or>
             new1 = [\<lparr>strategy_id = 1, symbol = hd (symbol_list self), datetime = datetime_now self,
                      signal_type = (if long_market self then ''EXIT'' else ''LONG''),
                      strength = 1\<rparr>]"
    and n1: "r1 \<noteq> None \<longrightarrow> new1 = []"
    and l1: "r1 = None \<or> queue_accepts c \<longrightarrow> long_market s1 = (long_market self \<noteq> (new1 \<noteq> []))"
    by auto
  from sh have a1: "alternating (long_market self) (map signal_type new1)"
    and t1: "\<forall>e \<in> set new1. datetime e = datetime_now self"
    and o1: "odd (length new1) = (new1 \<noteq> [])"
    by auto
  show ?case
  proof (cases r1)
    case None
    with Cons.prems x step have rest: "run c s1 evs = (r, self')" by simp
    from None l1 o1 have f1: "long_market s1 = (long_market self \<noteq> odd (length new1))" by simp
    from Cons.IH [OF rest]
    obtain new2 where d2: "datetime_now self' = datetime_now s1"
      and e2: "events self' = events s1 @ new2"
      and a2: "alternating (long_market s1) (map signal_type new2)"
      and l2: "r = None \<or> queue_accepts c \<longrightarrow> long_market self' = (long_market s1 \<noteq> odd (length new2))"
      and t2: "\<forall>e \<in> set new2. datetime e = datetime_now s1"
      by auto
    have "events self' = events self @ (new1 @ new2)" using e1 e2 by simp
    moreover have "alternating (long_market self) (map signal_type (new1 @ new2))"
      using a1 a2 f1 by (simp add: alternating_append)
    moreover have "r = None \<or> queue_accepts c \<longrightarrow>
        long_market self' = (long_market self \<noteq> odd (length (new1 @ new2)))"
      using f1 l2 by auto
    moreover have "\<forall>e \<in> set (new1 @ new2). datetime e = datetime_now self"
      using t1 t2 d1 by auto
    ultimately show ?thesis using d1 d2 by metis
  next
    case (Some e)
    with Cons.prems x step have s': "self' = s1" and r: "r = Some e" by simp_all
    from Some n1 have "new1 = []" by simp
    with s' r d1 e1 l1 show ?thesis by simp
  qed
qed

text \<open>What \<open>__init__\<close> leaves in the object it returns.\<close>

lemma init_fields:
  "SPYDailyForecastStrategy_init c bars0 events0 utcnow = Inr self \<Longrightarrow>
     bar_index self = 0 \<and> \<not> long_market self \<and> events self = events0 \<and>
     datetime_now self = utcnow \<and> symbol_list self = bars_symbol_list c bars0 \<and>
     bars self = bars0 \<and> create_symbol_forecast_model c self = Inr (model self)"
  by (auto simp: SPYDailyForecastStrategy_init_def Let_def create_symbol_forecast_model_def
      training_sets_def split: sum.splits)

text \<open>
  The boolean masks of \<open>create_symbol_forecast_model\<close> keep the rows by their dates;
  the training sets when the builder answers and the three columns are there, when a
  column is missing, and when the builder raises.
\<close>

lemma keep_rows_where: "keep (map P idx) col = rows_where P idx col"
proof (induction idx arbitrary: col)
  case Nil
  then show ?case by (simp add: keep_def rows_where_def)
next
  case (Cons d idx)
  then show ?case by (cases col) (auto simp: keep_def rows_where_def)
qed

lemma rows_where_index: "rows_where P idx idx = filter P idx"
  by (induction idx) (auto simp: rows_where_def)

lemma training_sets_ok:
  assumes "symbol_list self = symb # syms"
    and "create_lagged_series c symb (model_start_date self) (model_end_date self) 5 = Inr snpret"
    and "map_of (data snpret) ''Lag1'' = Some lag1"
    and "map_of (data snpret) ''Lag2'' = Some lag2"
    and "map_of (data snpret) ''Direction'' = Some direction"
  shows "training_sets c self =
     Inr (\<lparr>index = filter (\<lambda>d. d < model_start_test_date self) (index snpret),
           data = [(''Lag1'', rows_where (\<lambda>d. d < model_start_test_date self) (index snpret) lag1),
                   (''Lag2'', rows_where (\<lambda>d. d < model_start_test_date self) (index snpret) lag2)]\<rparr>,
          \<lparr>index = filter (\<lambda>d. model_start_test_date self \<le> d) (index snpret),
           data = [(''Lag1'', rows_where (\<lambda>d. model_start_test_date self \<le> d) (index snpret) lag1),
                   (''Lag2'', rows_where (\<lambda>d. model_start_test_date self \<le> d) (index snpret) lag2)]\<rparr>,
          \<lparr>index = filter (\<lambda>d. d < model_start_test_date self) (index snpret),
           data = [(''Direction'', rows_where (\<lambda>d. d < model_start_test_date self) (index snpret) direction)]\<rparr>,
          \<lparr>index = filter (\<lambda>d. model_start_test_date self \<le> d) (index snpret),
           data = [(''Direction'', rows_where (\<lambda>d. model_start_test_date self \<le> d) (index snpret) direction)]\<rparr>)"
  using assms
  by (simp add: training_sets_def getitem_def getitem_columns_def getitem_mask_def Let_def
      keep_rows_where rows_where_index)

lemma training_sets_missing:
  assumes "symbol_list self = symb # syms"
    and "create_lagged_series c symb (model_start_date self) (model_end_date self) 5 = Inr snpret"
    and "map_of (data snpret) ''Lag1'' = None \<or> map_of (data snpret) ''Lag2'' = None \<or>
         map_of (data snpret) ''Direction'' = None"
  shows "training_sets c self = Inl KeyError"
  using assms
  by (auto simp: training_sets_def getitem_def getitem_columns_def split: option.splits sum.splits)

lemma training_sets_builder_fails:
  assumes "symbol_list self = symb # syms"
    and "create_lagged_series c symb (model_start_date self) (model_end_date self) 5 = Inl e"
  shows "training_sets c self = Inl e"
  using assms by (simp add: training_sets_def getitem_def)

text \<open>The definitions the examples unfold.\<close>

lemmas stub_defs = stub_def stub_get_latest_def stub_predict_def after_warmup_def fresh_def
  trained_def market_def bar_def

lemmas run_defs = calculate_signals_def predict_and_signal_def getitem_def emit_signals_def
  put_signal_def
  emitted_def warmup_bars_def later_bars_def

lemmas init_defs = SPYDailyForecastStrategy_init_def create_symbol_forecast_model_def
  training_sets_def getitem_columns_def getitem_mask_def keep_def getitem_def
  stub_def stub_fit_def stub_lagged_series_def lag_names_def fresh_def trained_def Let_def

text \<open>The stand-ins at work: construction, the warm-up, and the whole run.\<close>

lemma init_fresh:
  "SPYDailyForecastStrategy_init (stub frame_full) ([], []) [] (2020, 5, 6, 0) = Inr (fresh [])"
  by (simp add: init_defs frame_full_def)

lemma run_warmup:
  "run (stub frame_full) (fresh []) warmup_bars =
     (None, (fresh [])\<lparr>bars := ([2 / 100, 1 / 100, 3 / 100], []), bar_index := 5\<rparr>)"
  by (simp add: stub_defs run_defs)

lemma run_full:
  "events (snd (run (stub frame_full) (fresh []) (warmup_bars @ later_bars))) =
     [\<lparr>strategy_id = 1, symbol = ''SPY'', datetime = (2020, 5, 6, 0),
       signal_type = ''LONG'', strength = 1\<rparr>,
      \<lparr>strategy_id = 1, symbol = ''SPY'', datetime = (2020, 5, 6, 0),
       signal_type = ''EXIT'', strength = 1\<rparr>,
      \<lparr>strategy_id = 1, symbol = ''SPY'', datetime = (2020, 5, 6, 0),
       signal_type = ''LONG'', strength = 1\<rparr>] \<and>
   long_market (snd (run (stub frame_full) (fresh []) (warmup_bars @ later_bars))) \<and>
   events (fresh []) = []"
  by (simp add: stub_defs run_defs)

lemma stub_series5:
  "create_lagged_series (stub frame_full) ''SPY'' (2016, 1, 10, 0) (2017, 12, 31, 0) 5 = Inr series5"
  by (simp add: stub_def stub_lagged_series_def lag_names_def frame_full_def series5_def)

lemma init_late:
  "SPYDailyForecastStrategy_init (stub frame_late) ([], []) [] (2020, 5, 6, 0) = Inl ValueError"
  by (simp add: init_defs frame_late_def)

lemma init_one_lag:
  "SPYDailyForecastStrategy_init (stub frame_one_lag) ([], []) [] (2020, 5, 6, 0) = Inl KeyError"
  by (simp add: init_defs frame_one_lag_def)


lemma stub_accepts: "queue_accepts (stub src)"
  by (simp add: queue_accepts_def stub_def)

subsection \<open>The transition table\<close>

text \<open>
  Claim C1. On a market event after the warm-up (five bars or more already counted),
  with three returns from the data handler and a prediction \<open>p\<close> from the classifier,
  on the normal path (the call returns, as it must when the constructor of the signal
  and the queue's \<open>put\<close> never raise) the call follows the table: flat and \<open>p > 0\<close>,
  exactly one
  \<open>LONG\<close> signal of strength 1.0 is put on the queue and the strategy is long; flat and
  \<open>p \<le> 0\<close>, nothing is put and it stays flat; long and \<open>p < 0\<close>, exactly one \<open>EXIT\<close>
  signal of strength 1.0 is put and it is flat; long and \<open>p \<ge> 0\<close>, nothing is put and
  it stays long. A prediction of 0 therefore neither enters nor exits.
\<close>

theorem transition_table:
  assumes "type ev = ''MARKET''" and "5 \<le> bar_index self" and "symbol_list self = symb # syms"
    and "get_latest_bars_values c (bars self) symb ''returns'' 3 = (Inr (l0 # l1 # l2 # ls), h)"
    and "predict c (model self) [l1 * 100, l2 * 100] = (Inr p, m)"
    and "calculate_signals c self ev = (r, self')"
    and "r = None \<or> queue_accepts c"
  shows "r = None \<and> events self' = events self @ emitted self self' \<and>
     (\<not> long_market self \<and> p > 0 \<longrightarrow>
        long_market self' \<and>
        emitted self self' =
          [\<lparr>strategy_id = 1, symbol = symb, datetime = datetime_now self,
            signal_type = ''LONG'', strength = 1\<rparr>]) \<and>
     (\<not> long_market self \<and> p \<le> 0 \<longrightarrow> \<not> long_market self' \<and> emitted self self' = []) \<and>
     (long_market self \<and> p < 0 \<longrightarrow>
        \<not> long_market self' \<and>
        emitted self self' =
          [\<lparr>strategy_id = 1, symbol = symb, datetime = datetime_now self,
            signal_type = ''EXIT'', strength = 1\<rparr>]) \<and>
     (long_market self \<and> p \<ge> 0 \<longrightarrow> long_market self' \<and> emitted self self' = [])"
proof -
  have "calculate_signals c self ev =
          emit_signals c (self\<lparr>bar_index := bar_index self + 1, bars := h, model := m\<rparr>)
            symb (datetime_now self) p"
    using assms(1-5) by (simp add: calculate_signals_open predict_and_signal_ok)
  with assms(6) have "emit_signals c (self\<lparr>bar_index := bar_index self + 1, bars := h, model := m\<rparr>)
        symb (datetime_now self) p = (r, self')"
    by simp
  from emit_signals_normal [OF this assms(7)] show ?thesis
    by (simp add: emitted_def)
qed

text \<open>
  The four rows at concrete inputs: predictions \<open>+1\<close> when flat, \<open>-1\<close> when long, and
  \<open>0\<close> in either state.
\<close>

theorem transition_table_witness:
  "(long_market (snd (calculate_signals (stub frame_full) (after_warmup [1 / 100, 2 / 100, 3 / 100] False) market)) \<and>
     emitted (after_warmup [1 / 100, 2 / 100, 3 / 100] False) (snd (calculate_signals (stub frame_full) (after_warmup [1 / 100, 2 / 100, 3 / 100] False) market)) =
       [\<lparr>strategy_id = 1, symbol = ''SPY'', datetime = (2020, 5, 6, 0), signal_type = ''LONG'', strength = 1\<rparr>]) \<and>
   (\<not> long_market (snd (calculate_signals (stub frame_full) (after_warmup [1 / 100, - 2 / 100, 3 / 100] True) market)) \<and>
     emitted (after_warmup [1 / 100, - 2 / 100, 3 / 100] True) (snd (calculate_signals (stub frame_full) (after_warmup [1 / 100, - 2 / 100, 3 / 100] True) market)) =
       [\<lparr>strategy_id = 1, symbol = ''SPY'', datetime = (2020, 5, 6, 0), signal_type = ''EXIT'', strength = 1\<rparr>]) \<and>
   (\<not> long_market (snd (calculate_signals (stub frame_full) (after_warmup [1 / 100, 0, 3 / 100] False) market)) \<and>
     emitted (after_warmup [1 / 100, 0, 3 / 100] False) (snd (calculate_signals (stub frame_full) (after_warmup [1 / 100, 0, 3 / 100] False) market)) =
       []) \<and>
   (long_market (snd (calculate_signals (stub frame_full) (after_warmup [1 / 100, 0, 3 / 100] True) market)) \<and>
     emitted (after_warmup [1 / 100, 0, 3 / 100] True) (snd (calculate_signals (stub frame_full) (after_warmup [1 / 100, 0, 3 / 100] True) market)) =
       [])"
proof -
  have c1: "long_market (snd (calculate_signals (stub frame_full) (after_warmup [1 / 100, 2 / 100, 3 / 100] False) market)) \<and>
     emitted (after_warmup [1 / 100, 2 / 100, 3 / 100] False) (snd (calculate_signals (stub frame_full) (after_warmup [1 / 100, 2 / 100, 3 / 100] False) market)) =
       [\<lparr>strategy_id = 1, symbol = ''SPY'', datetime = (2020, 5, 6, 0), signal_type = ''LONG'', strength = 1\<rparr>]"
    using transition_table [where c = "stub frame_full" and ev = market and symb = "''SPY''"
        and syms = "[]" and ?l0.0 = "1 / 100" and ?l2.0 = "3 / 100" and ls = "[]"
        and self = "after_warmup [1 / 100, 2 / 100, 3 / 100] False" and ?l1.0 = "2 / 100" and p = "1"
        and h = "([1 / 100, 2 / 100, 3 / 100], [(''SPY'', ''returns'', 3)])"
        and m = "trained\<lparr>seen := [[2, 3]]\<rparr>"
        and r = "fst (calculate_signals (stub frame_full) (after_warmup [1 / 100, 2 / 100, 3 / 100] False) market)"
        and self' = "snd (calculate_signals (stub frame_full) (after_warmup [1 / 100, 2 / 100, 3 / 100] False) market)"]
    by (simp add: stub_defs queue_accepts_def)
  have c2: "\<not> long_market (snd (calculate_signals (stub frame_full) (after_warmup [1 / 100, - 2 / 100, 3 / 100] True) market)) \<and>
     emitted (after_warmup [1 / 100, - 2 / 100, 3 / 100] True) (snd (calculate_signals (stub frame_full) (after_warmup [1 / 100, - 2 / 100, 3 / 100] True) market)) =
       [\<lparr>strategy_id = 1, symbol = ''SPY'', datetime = (2020, 5, 6, 0), signal_type = ''EXIT'', strength = 1\<rparr>]"
    using transition_table [where c = "stub frame_full" and ev = market and symb = "''SPY''"
        and syms = "[]" and ?l0.0 = "1 / 100" and ?l2.0 = "3 / 100" and ls = "[]"
        and self = "after_warmup [1 / 100, - 2 / 100, 3 / 100] True" and ?l1.0 = "- 2 / 100" and p = "- 1"
        and h = "([1 / 100, - 2 / 100, 3 / 100], [(''SPY'', ''returns'', 3)])"
        and m = "trained\<lparr>seen := [[- 2, 3]]\<rparr>"
        and r = "fst (calculate_signals (stub frame_full) (after_warmup [1 / 100, - 2 / 100, 3 / 100] True) market)"
        and self' = "snd (calculate_signals (stub frame_full) (after_warmup [1 / 100, - 2 / 100, 3 / 100] True) market)"]
    by (simp add: stub_defs queue_accepts_def)
  have c3: "\<not> long_market (snd (calculate_signals (stub frame_full) (after_warmup [1 / 100, 0, 3 / 100] False) market)) \<and>
     emitted (after_warmup [1 / 100, 0, 3 / 100] False) (snd (calculate_signals (stub frame_full) (after_warmup [1 / 100, 0, 3 / 100] False) market)) =
       []"
    using transition_table [where c = "stub frame_full" and ev = market and symb = "''SPY''"
        and syms = "[]" and ?l0.0 = "1 / 100" and ?l2.0 = "3 / 100" and ls = "[]"
        and self = "after_warmup [1 / 100, 0, 3 / 100] False" and ?l1.0 = "0" and p = "0"
        and h = "([1 / 100, 0, 3 / 100], [(''SPY'', ''returns'', 3)])"
        and m = "trained\<lparr>seen := [[0, 3]]\<rparr>"
        and r = "fst (calculate_signals (stub frame_full) (after_warmup [1 / 100, 0, 3 / 100] False) market)"
        and self' = "snd (calculate_signals (stub frame_full) (after_warmup [1 / 100, 0, 3 / 100] False) market)"]
    by (simp add: stub_defs queue_accepts_def)
  have c4: "long_market (snd (calculate_signals (stub frame_full) (after_warmup [1 / 100, 0, 3 / 100] True) market)) \<and>
     emitted (after_warmup [1 / 100, 0, 3 / 100] True) (snd (calculate_signals (stub frame_full) (after_warmup [1 / 100, 0, 3 / 100] True) market)) =
       []"
    using transition_table [where c = "stub frame_full" and ev = market and symb = "''SPY''"
        and syms = "[]" and ?l0.0 = "1 / 100" and ?l2.0 = "3 / 100" and ls = "[]"
        and self = "after_warmup [1 / 100, 0, 3 / 100] True" and ?l1.0 = "0" and p = "0"
        and h = "([1 / 100, 0, 3 / 100], [(''SPY'', ''returns'', 3)])"
        and m = "trained\<lparr>seen := [[0, 3]]\<rparr>"
        and r = "fst (calculate_signals (stub frame_full) (after_warmup [1 / 100, 0, 3 / 100] True) market)"
        and self' = "snd (calculate_signals (stub frame_full) (after_warmup [1 / 100, 0, 3 / 100] True) market)"]
    by (simp add: stub_defs queue_accepts_def)
  from c1 c2 c3 c4 show ?thesis by blast
qed

subsection \<open>The features\<close>

text \<open>
  Claim C4. On a market event after the warm-up the data handler is asked for the
  \<open>returns\<close> of the symbol with \<open>N = 3\<close>, and, when it answers with the returns
  \<open>l0, l1, l2, ...\<close>, the classifier is asked exactly once, about the row
  \<open>[l1 * 100, l2 * 100]\<close>, the products with the literal 100 of the source: \<open>Lag1\<close> is index 1 and \<open>Lag2\<close> is index 2 of the answer,
  and index 0 is not in the row. What the call does then depends on the classifier's
  answer to that row alone.
\<close>

theorem features_from_lags:
  assumes "type ev = ''MARKET''" and "5 \<le> bar_index self" and "symbol_list self = symb # syms"
    and "get_latest_bars_values c (bars self) symb ''returns'' 3 = (Inr (l0 # l1 # l2 # ls), h)"
    and "predict c (model self) [l1 * 100, l2 * 100] = (r, m)"
  shows "calculate_signals c self ev =
           (case r of
              Inl e \<Rightarrow> (Some e, self\<lparr>bar_index := bar_index self + 1, bars := h, model := m\<rparr>)
            | Inr p \<Rightarrow>
                emit_signals c (self\<lparr>bar_index := bar_index self + 1, bars := h, model := m\<rparr>)
                  symb (datetime_now self) p) \<and>
         bars (snd (calculate_signals c self ev)) = h \<and>
         model (snd (calculate_signals c self ev)) = m"
proof -
  let ?s = "self\<lparr>bar_index := bar_index self + 1, bars := h, model := m\<rparr>"
  have eq: "calculate_signals c self ev =
      (case r of Inl e \<Rightarrow> (Some e, ?s) | Inr p \<Rightarrow> emit_signals c ?s symb (datetime_now self) p)"
    using assms by (simp add: calculate_signals_open predict_and_signal_ok split: sum.splits)
  have "bars (snd (emit_signals c ?s symb (datetime_now self) p)) = h \<and>
        model (snd (emit_signals c ?s symb (datetime_now self) p)) = m" for p
    using emit_signals_frame [of c ?s symb "datetime_now self" p
        "fst (emit_signals c ?s symb (datetime_now self) p)"
        "snd (emit_signals c ?s symb (datetime_now self) p)"]
    by simp
  with eq show ?thesis by (cases r) simp_all
qed

text \<open>
  With the returns \<open>[0.01, -0.02, 0.03]\<close> the classifier has seen the one row
  \<open>[-2, 3]\<close>, and the data handler one query, for three returns.
\<close>

theorem features_from_lags_witness:
  "seen (model (snd (calculate_signals (stub frame_full) (after_warmup [1 / 100, - 2 / 100, 3 / 100] False) market)))
     = [[- 2, 3]] \<and>
   snd (bars (snd (calculate_signals (stub frame_full) (after_warmup [1 / 100, - 2 / 100, 3 / 100] False) market)))
     = [(''SPY'', ''returns'', 3)]"
  using features_from_lags [where c = "stub frame_full" and ev = market and symb = "''SPY''"
        and syms = "[]" and ?l0.0 = "1 / 100" and ?l1.0 = "- 2 / 100" and ?l2.0 = "3 / 100" and ls = "[]"
        and self = "after_warmup [1 / 100, - 2 / 100, 3 / 100] False"
        and h = "([1 / 100, - 2 / 100, 3 / 100], [(''SPY'', ''returns'', 3)])"
        and r = "Inr (- 1)"
        and m = "trained\<lparr>seen := [[- 2, 3]]\<rparr>"]
  by (simp add: stub_defs emit_signals_def put_signal_def)

subsection \<open>The transition as a function of state and sign\<close>

text \<open>
  Claim C9. Two calls after the warm-up, on the same strategy at different times or on
  two strategies with the same symbol and timestamp, each on the normal path (the call
  returns, as it must when the constructor of the signal and the queue's \<open>put\<close> never
  raise): when the flag is the same and the two predictions have the same sign, both
  calls raise nothing, leave the same flag and put the same signals on the queue,
  whatever the bar counts, the queues, the returns and the collaborators are.
\<close>

theorem transition_deterministic:
  assumes "type ev1 = ''MARKET''" and "5 \<le> bar_index s1" and "symbol_list s1 = symb # syms1"
    and "get_latest_bars_values c1 (bars s1) symb ''returns'' 3 = (Inr (a0 # a1 # a2 # as), h1)"
    and "predict c1 (model s1) [a1 * 100, a2 * 100] = (Inr p1, m1)"
    and "type ev2 = ''MARKET''" and "5 \<le> bar_index s2" and "symbol_list s2 = symb # syms2"
    and "get_latest_bars_values c2 (bars s2) symb ''returns'' 3 = (Inr (b0 # b1 # b2 # bs), h2)"
    and "predict c2 (model s2) [b1 * 100, b2 * 100] = (Inr p2, m2)"
    and "datetime_now s1 = datetime_now s2"
    and "long_market s1 = long_market s2" and "sgn p1 = sgn p2"
    and "fst (calculate_signals c1 s1 ev1) = None \<or> queue_accepts c1"
    and "fst (calculate_signals c2 s2 ev2) = None \<or> queue_accepts c2"
  shows "fst (calculate_signals c1 s1 ev1) = fst (calculate_signals c2 s2 ev2) \<and>
         long_market (snd (calculate_signals c1 s1 ev1)) = long_market (snd (calculate_signals c2 s2 ev2)) \<and>
         emitted s1 (snd (calculate_signals c1 s1 ev1)) = emitted s2 (snd (calculate_signals c2 s2 ev2))"
proof -
  have sg: "(0 < p1) = (0 < p2)" "(p1 < 0) = (p2 < 0)"
    using sgn_eq_pos [OF assms(13)] by blast+
  let ?e1 = "emit_signals c1 (s1\<lparr>bar_index := bar_index s1 + 1, bars := h1, model := m1\<rparr>)
        symb (datetime_now s1) p1"
  let ?e2 = "emit_signals c2 (s2\<lparr>bar_index := bar_index s2 + 1, bars := h2, model := m2\<rparr>)
        symb (datetime_now s2) p2"
  have 1: "calculate_signals c1 s1 ev1 = ?e1"
    using assms(1-5) by (simp add: calculate_signals_open predict_and_signal_ok)
  have 2: "calculate_signals c2 s2 ev2 = ?e2"
    using assms(6-10) by (simp add: calculate_signals_open predict_and_signal_ok)
  have n1: "?e1 = (fst ?e1, snd ?e1)" and n2: "?e2 = (fst ?e2, snd ?e2)" by simp_all
  from emit_signals_normal [OF n1] assms(14) 1 have r1: "fst ?e1 = None"
    and t1: "snd ?e1 = s1\<lparr>bar_index := bar_index s1 + 1, bars := h1, model := m1,
        long_market := (if long_market s1 then \<not> p1 < 0 else p1 > 0),
        events := events s1 @
             (if \<not> long_market s1 \<and> p1 > 0
              then [\<lparr>strategy_id = 1, symbol = symb, datetime = datetime_now s1, signal_type = ''LONG'', strength = 1\<rparr>]
              else if long_market s1 \<and> p1 < 0
              then [\<lparr>strategy_id = 1, symbol = symb, datetime = datetime_now s1, signal_type = ''EXIT'', strength = 1\<rparr>]
              else [])\<rparr>"
    by simp_all
  from emit_signals_normal [OF n2] assms(15) 2 have r2: "fst ?e2 = None"
    and t2: "snd ?e2 = s2\<lparr>bar_index := bar_index s2 + 1, bars := h2, model := m2,
        long_market := (if long_market s2 then \<not> p2 < 0 else p2 > 0),
        events := events s2 @
             (if \<not> long_market s2 \<and> p2 > 0
              then [\<lparr>strategy_id = 1, symbol = symb, datetime = datetime_now s2, signal_type = ''LONG'', strength = 1\<rparr>]
              else if long_market s2 \<and> p2 < 0
              then [\<lparr>strategy_id = 1, symbol = symb, datetime = datetime_now s2, signal_type = ''EXIT'', strength = 1\<rparr>]
              else [])\<rparr>"
    by simp_all
  show ?thesis
    unfolding 1 2 r1 r2 t1 t2 using assms(11,12) sg
    by (simp add: emitted_def)
qed

text \<open>
  Bar counts 5 and 42, different returns and different training data, both flat with a
  positive prediction: the same \<open>LONG\<close> signal.
\<close>

theorem transition_deterministic_witness:
  "emitted (after_warmup [1 / 100, 2 / 100, 3 / 100] False)
     (snd (calculate_signals (stub frame_full) (after_warmup [1 / 100, 2 / 100, 3 / 100] False) market)) =
   emitted ((after_warmup [5 / 100, 7 / 100, 1 / 100] False)\<lparr>bar_index := 42\<rparr>)
     (snd (calculate_signals (stub frame_late) ((after_warmup [5 / 100, 7 / 100, 1 / 100] False)\<lparr>bar_index := 42\<rparr>) market)) \<and>
   emitted (after_warmup [1 / 100, 2 / 100, 3 / 100] False)
     (snd (calculate_signals (stub frame_full) (after_warmup [1 / 100, 2 / 100, 3 / 100] False) market)) =
     [\<lparr>strategy_id = 1, symbol = ''SPY'', datetime = (2020, 5, 6, 0),
       signal_type = ''LONG'', strength = 1\<rparr>] \<and>
   long_market (snd (calculate_signals (stub frame_full) (after_warmup [1 / 100, 2 / 100, 3 / 100] False) market)) \<and>
   long_market (snd (calculate_signals (stub frame_late) ((after_warmup [5 / 100, 7 / 100, 1 / 100] False)\<lparr>bar_index := 42\<rparr>) market))"
  using transition_deterministic [where ?c1.0 = "stub frame_full" and ?c2.0 = "stub frame_late"
      and ?ev1.0 = market and ?ev2.0 = market and symb = "''SPY''" and ?syms1.0 = "[]" and ?syms2.0 = "[]"
      and ?s1.0 = "after_warmup [1 / 100, 2 / 100, 3 / 100] False"
      and ?s2.0 = "(after_warmup [5 / 100, 7 / 100, 1 / 100] False)\<lparr>bar_index := 42\<rparr>"
      and ?a0.0 = "1 / 100" and ?a1.0 = "2 / 100" and ?a2.0 = "3 / 100" and as = "[]"
      and ?b0.0 = "5 / 100" and ?b1.0 = "7 / 100" and ?b2.0 = "1 / 100" and bs = "[]"
      and ?h1.0 = "([1 / 100, 2 / 100, 3 / 100], [(''SPY'', ''returns'', 3)])"
      and ?h2.0 = "([5 / 100, 7 / 100, 1 / 100], [(''SPY'', ''returns'', 3)])"
      and ?p1.0 = 1 and ?p2.0 = 1
      and ?m1.0 = "trained\<lparr>seen := [[2, 3]]\<rparr>"
      and ?m2.0 = "trained\<lparr>seen := [[7, 1]]\<rparr>"]
  by (simp add: stub_defs calculate_signals_def predict_and_signal_def getitem_def
      emit_signals_def put_signal_def emitted_def queue_accepts_def)

subsection \<open>Events that are not market events\<close>

text \<open>
  Claim C10. For an event whose type is not \<open>MARKET\<close>, \<open>calculate_signals\<close> leaves the
  whole object as it was: the bar counter, the flag, the queue, the data handler (it
  is not queried) and the classifier. With a symbol in the symbol list it raises
  nothing.
\<close>

theorem non_market_noop:
  assumes "type ev \<noteq> ''MARKET''"
  shows "snd (calculate_signals c self ev) = self \<and>
         (symbol_list self \<noteq> [] \<longrightarrow> fst (calculate_signals c self ev) = None)"
  using assms
  by (cases "symbol_list self") (simp_all add: calculate_signals_def getitem_def Let_def)

text \<open>A \<open>SIGNAL\<close> event on a long strategy with five bars seen: nothing changes, and the data handler's log of queries stays empty.\<close>

theorem non_market_noop_witness:
  "calculate_signals (stub frame_full) (after_warmup [1 / 100, 2 / 100, 3 / 100] True) \<lparr>type = ''SIGNAL''\<rparr> =
     (None, after_warmup [1 / 100, 2 / 100, 3 / 100] True) \<and>
   bars (after_warmup [1 / 100, 2 / 100, 3 / 100] True) = ([1 / 100, 2 / 100, 3 / 100], []) \<and>
   bar_index (after_warmup [1 / 100, 2 / 100, 3 / 100] True) = 5"
  using non_market_noop [where ev = "\<lparr>type = ''SIGNAL''\<rparr>"
        and self = "after_warmup [1 / 100, 2 / 100, 3 / 100] True" and c = "stub frame_full"]
  by (simp add: prod_eq_iff stub_defs)

subsection \<open>Too few returns, and the other exceptions\<close>




subsection \<open>The warm-up gate\<close>

text \<open>
  Claim C2. The bar counter counts the market events. As long as it stays at 5 or
  below (the bars already counted plus the market events of the run are at most 5),
  whatever the events, the data handler and the classifier are, the run puts no signal
  on the queue, leaves the classifier untouched (no prediction is made) and leaves the
  flag as it was. Only a market event that takes the counter above 5 reaches the
  prediction.
\<close>

theorem warmup_gate:
  assumes "bar_index self + int (market_count evs) \<le> 5" and "run c self evs = (r, self')"
  shows "events self' = events self \<and> emitted self self' = [] \<and> model self' = model self \<and>
         long_market self' = long_market self \<and>
         (r = None \<longrightarrow> bar_index self' = bar_index self + int (market_count evs))"
  using run_closed [OF assms] by (simp add: emitted_def)

text \<open>
  A fresh strategy, five market events and one other event: no exception, an empty
  queue, a classifier that has seen no row, and a counter at 5.
\<close>

theorem warmup_gate_witness:
  "run (stub frame_full) (fresh []) warmup_bars =
     (None, (fresh [])\<lparr>bars := ([2 / 100, 1 / 100, 3 / 100], []), bar_index := 5\<rparr>) \<and>
   market_count warmup_bars = 5 \<and> bar_index (fresh []) = 0 \<and>
   model ((fresh [])\<lparr>bars := ([2 / 100, 1 / 100, 3 / 100], []), bar_index := 5\<rparr>) = model (fresh [])"
  using warmup_gate [where c = "stub frame_full" and self = "fresh []" and evs = warmup_bars
      and r = "fst (run (stub frame_full) (fresh []) warmup_bars)"
      and self' = "snd (run (stub frame_full) (fresh []) warmup_bars)"]
    run_warmup
  by (simp add: market_count_def warmup_bars_def market_def fresh_def)

subsection \<open>Alternation\<close>

text \<open>
  Claim C3. In every run, from any state, the queue only grows, and the signals put on
  it alternate: the first is \<open>LONG\<close> when the strategy was flat and \<open>EXIT\<close> when it was
  long, and each following one is the other kind. So a \<open>LONG\<close> is put only when flat
  and an \<open>EXIT\<close> only when long, and no two consecutive signals are of the same kind.
  When the run ends without an exception, and also when it ends with one while the
  constructor of the signal and the queue never raise, the flag at the end is the flag
  at the start flipped once per signal.
\<close>

theorem signals_alternate:
  assumes "run c self evs = (r, self')"
  shows "events self' = events self @ emitted self self' \<and>
         alternating (long_market self) (map signal_type (emitted self self')) \<and>
         (r = None \<or> queue_accepts c \<longrightarrow>
            long_market self' = (long_market self \<noteq> odd (length (emitted self self')))) \<and>
         (\<forall>i. Suc i < length (emitted self self') \<longrightarrow>
            signal_type (emitted self self' ! i) \<noteq> signal_type (emitted self self' ! Suc i))"
proof -
  from run_emits [OF assms] obtain new where e: "events self' = events self @ new"
    and a: "alternating (long_market self) (map signal_type new)"
    and l: "r = None \<or> queue_accepts c \<longrightarrow> long_market self' = (long_market self \<noteq> odd (length new))"
    by blast
  from e have n: "emitted self self' = new" by (simp add: emitted_def)
  have "signal_type (new ! i) \<noteq> signal_type (new ! Suc i)" if "Suc i < length new" for i
    using alternating_adjacent [OF a, of i] that by simp
  with e a l n show ?thesis by simp
qed

text \<open>A fresh strategy over ten market events: \<open>LONG\<close>, \<open>EXIT\<close>, \<open>LONG\<close>, and long at the end.\<close>

theorem signals_alternate_witness:
  "map signal_type (emitted (fresh []) (snd (run (stub frame_full) (fresh []) (warmup_bars @ later_bars)))) =
     [''LONG'', ''EXIT'', ''LONG''] \<and>
   long_market (snd (run (stub frame_full) (fresh []) (warmup_bars @ later_bars))) \<and> \<not> long_market (fresh [])"
  using signals_alternate [where c = "stub frame_full" and self = "fresh []"
      and evs = "warmup_bars @ later_bars"
      and r = "fst (run (stub frame_full) (fresh []) (warmup_bars @ later_bars))"
      and self' = "snd (run (stub frame_full) (fresh []) (warmup_bars @ later_bars))"]
    run_full
  by (simp add: emitted_def fresh_def)

subsection \<open>The timestamp\<close>

text \<open>
  Claim C8. \<open>datetime_now\<close> is the reading of the clock taken in \<open>__init__\<close>; no call
  changes it, and every signal put on the queue in a run of the constructed strategy
  carries it, whichever event triggered the signal.
\<close>

theorem signal_timestamp:
  assumes "SPYDailyForecastStrategy_init c bars0 events0 utcnow = Inr self"
    and "run c self evs = (r, self')"
  shows "datetime_now self = utcnow \<and> datetime_now self' = utcnow \<and>
         (\<forall>e \<in> set (emitted self self'). datetime e = utcnow)"
proof -
  from init_fields [OF assms(1)] have t: "datetime_now self = utcnow" by simp
  from run_emits [OF assms(2)] obtain new where e: "events self' = events self @ new"
    and d: "datetime_now self' = datetime_now self"
    and a: "\<forall>e \<in> set new. datetime e = datetime_now self"
    by blast
  from e have "emitted self self' = new" by (simp add: emitted_def)
  with t d a show ?thesis by simp
qed

text \<open>The three signals of the run above all carry the construction time.\<close>

theorem signal_timestamp_witness:
  "SPYDailyForecastStrategy_init (stub frame_full) ([], []) [] (2020, 5, 6, 0) = Inr (fresh []) \<and>
   map datetime (emitted (fresh []) (snd (run (stub frame_full) (fresh []) (warmup_bars @ later_bars)))) =
     [(2020, 5, 6, 0), (2020, 5, 6, 0), (2020, 5, 6, 0)]"
  using signal_timestamp [where c = "stub frame_full" and ?bars0.0 = "([], [])" and ?events0.0 = "[]"
      and utcnow = "(2020, 5, 6, 0)" and self = "fresh []"
      and evs = "warmup_bars @ later_bars"
      and r = "fst (run (stub frame_full) (fresh []) (warmup_bars @ later_bars))"
      and self' = "snd (run (stub frame_full) (fresh []) (warmup_bars @ later_bars))"]
    run_full init_fresh
  by (simp add: emitted_def)

subsection \<open>The training sets\<close>

text \<open>
  Claim C5. \<open>create_symbol_forecast_model\<close> asks the builder for the lagged series of
  the first symbol with \<open>lags = 5\<close>. Of the series it answers with, the predictors are
  the columns \<open>Lag1\<close> and \<open>Lag2\<close> only and the response is \<open>Direction\<close>; the training
  sets hold exactly the rows dated strictly before \<open>model_start_test_date\<close>, the test
  sets exactly the rows dated on or after it, so each row is in one of the two; and the
  classifier is fitted on the training sets.
\<close>

theorem training_partition:
  assumes "symbol_list self = symb # syms"
    and "create_lagged_series c symb (model_start_date self) (model_end_date self) 5 = Inr snpret"
    and "map_of (data snpret) ''Lag1'' = Some lag1"
    and "map_of (data snpret) ''Lag2'' = Some lag2"
    and "map_of (data snpret) ''Direction'' = Some direction"
    and "cutoff = model_start_test_date self"
    and "X_train = \<lparr>index = filter (\<lambda>d. d < cutoff) (index snpret),
                     data = [(''Lag1'', rows_where (\<lambda>d. d < cutoff) (index snpret) lag1),
                             (''Lag2'', rows_where (\<lambda>d. d < cutoff) (index snpret) lag2)]\<rparr>"
    and "X_test = \<lparr>index = filter (\<lambda>d. cutoff \<le> d) (index snpret),
                    data = [(''Lag1'', rows_where (\<lambda>d. cutoff \<le> d) (index snpret) lag1),
                            (''Lag2'', rows_where (\<lambda>d. cutoff \<le> d) (index snpret) lag2)]\<rparr>"
    and "y_train = \<lparr>index = filter (\<lambda>d. d < cutoff) (index snpret),
                     data = [(''Direction'', rows_where (\<lambda>d. d < cutoff) (index snpret) direction)]\<rparr>"
    and "y_test = \<lparr>index = filter (\<lambda>d. cutoff \<le> d) (index snpret),
                    data = [(''Direction'', rows_where (\<lambda>d. cutoff \<le> d) (index snpret) direction)]\<rparr>"
  shows "training_sets c self = Inr (X_train, X_test, y_train, y_test) \<and>
         create_symbol_forecast_model c self = fit c X_train y_train \<and>
         length (index X_train) + length (index X_test) = length (index snpret) \<and>
         (\<forall>d \<in> set (index X_train). d < cutoff) \<and>
         (\<forall>d \<in> set (index X_test). cutoff \<le> d)"
proof -
  have ts: "training_sets c self = Inr (X_train, X_test, y_train, y_test)"
    unfolding assms(6-10) by (rule training_sets_ok [OF assms(1-5)])
  have "(\<lambda>d. cutoff \<le> d) = (\<lambda>d. \<not> d < cutoff)" by (auto simp: fun_eq_iff)
  then have len: "length (index X_train) + length (index X_test) = length (index snpret)"
    unfolding assms(7,8) by (simp add: sum_length_filter_compl)
  show ?thesis
    using ts len by (simp add: create_symbol_forecast_model_def assms(7,8))
qed

text \<open>
  Four rows, two on each side of 2017-01-01, the row of the cutoff date itself in the
  test set; of the five lag columns the builder answers with, two are used.
\<close>

theorem training_partition_witness:
  "create_lagged_series (stub frame_full) ''SPY'' (2016, 1, 10, 0) (2017, 12, 31, 0) 5 = Inr series5 \<and>
   training_sets (stub frame_full) (fresh []) =
     Inr (\<lparr>index = [(2016, 6, 1, 0), (2016, 12, 30, 0)],
           data = [(''Lag1'', [11, 12]), (''Lag2'', [21, 22])]\<rparr>,
          \<lparr>index = [(2017, 1, 1, 0), (2017, 3, 1, 0)],
           data = [(''Lag1'', [13, 14]), (''Lag2'', [23, 24])]\<rparr>,
          \<lparr>index = [(2016, 6, 1, 0), (2016, 12, 30, 0)],
           data = [(''Direction'', [1, - 1])]\<rparr>,
          \<lparr>index = [(2017, 1, 1, 0), (2017, 3, 1, 0)],
           data = [(''Direction'', [1, - 1])]\<rparr>) \<and>
   create_symbol_forecast_model (stub frame_full) (fresh []) = Inr trained"
  using training_partition [where c = "stub frame_full" and self = "fresh []" and symb = "''SPY''"
      and syms = "[]" and snpret = series5 and cutoff = "(2017, 1, 1, 0)"
      and ?lag1.0 = "[11, 12, 13, 14]" and ?lag2.0 = "[21, 22, 23, 24]"
      and direction = "[1, - 1, 1, - 1]"
      and X_train = "\<lparr>index = [(2016, 6, 1, 0), (2016, 12, 30, 0)],
           data = [(''Lag1'', [11, 12]), (''Lag2'', [21, 22])]\<rparr>"
      and X_test = "\<lparr>index = [(2017, 1, 1, 0), (2017, 3, 1, 0)],
           data = [(''Lag1'', [13, 14]), (''Lag2'', [23, 24])]\<rparr>"
      and y_train = "\<lparr>index = [(2016, 6, 1, 0), (2016, 12, 30, 0)],
           data = [(''Direction'', [1, - 1])]\<rparr>"
      and y_test = "\<lparr>index = [(2017, 1, 1, 0), (2017, 3, 1, 0)],
           data = [(''Direction'', [1, - 1])]\<rparr>"]
    stub_series5
  by (simp add: fresh_def trained_def series5_def rows_where_def stub_def stub_fit_def)

subsection \<open>Failures of the construction\<close>

text \<open>
  Claim C6, as the code has it. The construction checks nothing itself. An exception of
  the builder leaves \<open>__init__\<close> unchanged; a series without the column \<open>Lag1\<close>,
  \<open>Lag2\<close> or \<open>Direction\<close> raises \<open>KeyError\<close>; otherwise the construction fails exactly
  when the classifier's \<open>fit\<close> raises on the training sets, with the exception \<open>fit\<close>
  raised, and succeeds with the fitted model when it does not. Whenever it fails,
  \<open>__init__\<close> returns no strategy.
\<close>

theorem construction_failures:
  assumes "bars_symbol_list c bars0 = symb # syms"
  shows "(create_lagged_series c symb (2016, 1, 10, 0) (2017, 12, 31, 0) 5 = Inl e \<longrightarrow>
            SPYDailyForecastStrategy_init c bars0 events0 utcnow = Inl e) \<and>
         (create_lagged_series c symb (2016, 1, 10, 0) (2017, 12, 31, 0) 5 = Inr snpret \<and>
          (map_of (data snpret) ''Lag1'' = None \<or> map_of (data snpret) ''Lag2'' = None \<or>
           map_of (data snpret) ''Direction'' = None) \<longrightarrow>
            SPYDailyForecastStrategy_init c bars0 events0 utcnow = Inl KeyError) \<and>
         (create_lagged_series c symb (2016, 1, 10, 0) (2017, 12, 31, 0) 5 = Inr snpret \<and>
          map_of (data snpret) ''Lag1'' = Some lag1 \<and> map_of (data snpret) ''Lag2'' = Some lag2 \<and>
          map_of (data snpret) ''Direction'' = Some direction \<longrightarrow>
            (case fit c
               \<lparr>index = filter (\<lambda>d. d < (2017, 1, 1, 0)) (index snpret),
              data = [(''Lag1'', rows_where (\<lambda>d. d < (2017, 1, 1, 0)) (index snpret) lag1),
                      (''Lag2'', rows_where (\<lambda>d. d < (2017, 1, 1, 0)) (index snpret) lag2)]\<rparr>
               \<lparr>index = filter (\<lambda>d. d < (2017, 1, 1, 0)) (index snpret),
              data = [(''Direction'', rows_where (\<lambda>d. d < (2017, 1, 1, 0)) (index snpret) direction)]\<rparr> of
               Inl e' \<Rightarrow> SPYDailyForecastStrategy_init c bars0 events0 utcnow = Inl e'
             | Inr m \<Rightarrow> \<exists>self. SPYDailyForecastStrategy_init c bars0 events0 utcnow = Inr self \<and> model self = m))"
proof -
  let ?A = "\<lparr>bars = bars0, symbol_list = bars_symbol_list c bars0, events = events0,
             datetime_now = utcnow, model_start_date = (2016, 1, 10, 0),
             model_end_date = (2017, 12, 31, 0), model_start_test_date = (2017, 1, 1, 0),
             long_market = False, short_market = False, bar_index = 0\<rparr>"
  have sl: "symbol_list ?A = symb # syms" using assms by simp
  have init: "SPYDailyForecastStrategy_init c bars0 events0 utcnow =
      (case create_symbol_forecast_model c ?A of
         Inl e \<Rightarrow> Inl e
       | Inr m \<Rightarrow> Inr (strategy_attrs.extend ?A \<lparr>model = m\<rparr>))"
    by (simp add: SPYDailyForecastStrategy_init_def Let_def strategy_attrs.defs strategy.defs
        split: sum.splits)
  have a: "SPYDailyForecastStrategy_init c bars0 events0 utcnow = Inl e" if "create_lagged_series c symb (2016, 1, 10, 0) (2017, 12, 31, 0) 5 = Inl e"
    using training_sets_builder_fails [OF sl, of c e] that
    by (simp add: init create_symbol_forecast_model_def)
  have b: "SPYDailyForecastStrategy_init c bars0 events0 utcnow = Inl KeyError"
    if "create_lagged_series c symb (2016, 1, 10, 0) (2017, 12, 31, 0) 5 = Inr snpret" and "map_of (data snpret) ''Lag1'' = None \<or>
      map_of (data snpret) ''Lag2'' = None \<or> map_of (data snpret) ''Direction'' = None"
    using training_sets_missing [OF sl, of c snpret] that
    by (simp add: init create_symbol_forecast_model_def)
  have c: "case fit c
               \<lparr>index = filter (\<lambda>d. d < (2017, 1, 1, 0)) (index snpret),
              data = [(''Lag1'', rows_where (\<lambda>d. d < (2017, 1, 1, 0)) (index snpret) lag1),
                      (''Lag2'', rows_where (\<lambda>d. d < (2017, 1, 1, 0)) (index snpret) lag2)]\<rparr>
               \<lparr>index = filter (\<lambda>d. d < (2017, 1, 1, 0)) (index snpret),
              data = [(''Direction'', rows_where (\<lambda>d. d < (2017, 1, 1, 0)) (index snpret) direction)]\<rparr> of
               Inl e' \<Rightarrow> SPYDailyForecastStrategy_init c bars0 events0 utcnow = Inl e'
             | Inr m \<Rightarrow> \<exists>self. SPYDailyForecastStrategy_init c bars0 events0 utcnow = Inr self \<and> model self = m"
    if "create_lagged_series c symb (2016, 1, 10, 0) (2017, 12, 31, 0) 5 = Inr snpret" and "map_of (data snpret) ''Lag1'' = Some lag1"
      and "map_of (data snpret) ''Lag2'' = Some lag2"
      and "map_of (data snpret) ''Direction'' = Some direction"
    using training_sets_ok [OF sl, of c snpret lag1 lag2 direction] that
    by (simp add: init create_symbol_forecast_model_def strategy_attrs.defs strategy.defs
        split: sum.splits)
  from a b c show ?thesis by blast
qed

text \<open>
  A series with one lag column: \<open>KeyError\<close>. A series whose rows are all of 2017: the
  training sets are empty and the stand-in's \<open>fit\<close> raises \<open>ValueError\<close>, which is what
  the constructor raises.
\<close>

theorem construction_failures_witness:
  "SPYDailyForecastStrategy_init (stub frame_one_lag) ([], []) [] (2020, 5, 6, 0) = Inl KeyError \<and>
   map_of (data frame_one_lag) ''Lag2'' = None \<and>
   SPYDailyForecastStrategy_init (stub frame_late) ([], []) [] (2020, 5, 6, 0) = Inl ValueError \<and>
   fit (stub frame_late)
     \<lparr>index = [], data = [(''Lag1'', []), (''Lag2'', [])]\<rparr>
     \<lparr>index = [], data = [(''Direction'', [])]\<rparr> = Inl ValueError \<and>
   bars_symbol_list (stub frame_one_lag) ([], []) = [''SPY'']"
  using construction_failures [where c = "stub frame_one_lag" and ?bars0.0 = "([], [])"
      and ?events0.0 = "[]" and utcnow = "(2020, 5, 6, 0)" and symb = "''SPY''" and syms = "[]"
      and snpret = frame_one_lag]
    construction_failures [where c = "stub frame_late" and ?bars0.0 = "([], [])"
      and ?events0.0 = "[]" and utcnow = "(2020, 5, 6, 0)" and symb = "''SPY''" and syms = "[]"
      and snpret = "frame_late\<lparr>data := butlast (butlast (data frame_late)) @ [last (data frame_late)]\<rparr>"
      and ?lag1.0 = "[13, 14]" and ?lag2.0 = "[23, 24]" and direction = "[1, - 1]"]
  by (simp add: stub_def stub_lagged_series_def stub_fit_def lag_names_def frame_one_lag_def
      frame_late_def rows_where_def)

text \<open>
  Claim C6 as stated names the exceptions \<open>ConfigurationError\<close> and \<open>TrainingError\<close>;
  the exceptions raised in the two cases above are \<open>KeyError\<close> and \<open>ValueError\<close>.
\<close>

theorem construction_errors_counterexample:
  "SPYDailyForecastStrategy_init (stub frame_one_lag) ([], []) [] (2020, 5, 6, 0) =
     Inl (Exception ''KeyError'') \<and>
   SPYDailyForecastStrategy_init (stub frame_one_lag) ([], []) [] (2020, 5, 6, 0) \<noteq>
     Inl (Exception ''ConfigurationError'') \<and>
   SPYDailyForecastStrategy_init (stub frame_late) ([], []) [] (2020, 5, 6, 0) =
     Inl (Exception ''ValueError'') \<and>
   SPYDailyForecastStrategy_init (stub frame_late) ([], []) [] (2020, 5, 6, 0) \<noteq>
     Inl (Exception ''TrainingError'')"
  by (simp add: init_late init_one_lag)

end
